theory Spec2Isabelle
  imports Main
begin

section \<open>JavaScript values used by the StormpathUser model\<close>

text \<open>
  The model file works on JSON-like objects whose properties may be absent. An absent
  (\<^verbatim>\<open>undefined\<close>) property is \<open>None\<close>. Strings are character lists; a string is
  truthy when it is present and not empty. Numbers are the documented \<^verbatim>\<open>{Number}\<close>
  values: an integer number of seconds, or \<^verbatim>\<open>NaN\<close>, which is what
  \<^verbatim>\<open>Math.min\<close> returns when one of its arguments is not a number.
\<close>

datatype jsnum = NaN | Num int

definition truthy_str :: "string option \<Rightarrow> bool" where
  "truthy_str v = (case v of None \<Rightarrow> False | Some s \<Rightarrow> s \<noteq> [])"

fun truthy_num :: "jsnum option \<Rightarrow> bool" where
  "truthy_num None = False"
| "truthy_num (Some NaN) = False"
| "truthy_num (Some (Num n)) = (n \<noteq> 0)"

fun Math_min :: "jsnum \<Rightarrow> jsnum \<Rightarrow> jsnum" where
  "Math_min (Num a) (Num b) = Num (min a b)"
| "Math_min NaN b = NaN"
| "Math_min (Num a) NaN = NaN"

text \<open>
  \<^verbatim>\<open>name.indexOf(realmDelimiter)\<close>: the index of the first occurrence, \<open>None\<close> for
  the source's \<^verbatim>\<open>-1\<close>.
\<close>

fun indexOf :: "string \<Rightarrow> string \<Rightarrow> nat option" where
  "indexOf [] d = (if d = [] then Some 0 else None)"
| "indexOf (c # cs) d =
     (if take (length d) (c # cs) = d then Some 0 else map_option Suc (indexOf cs d))"

section \<open>Data model\<close>

text \<open>The \<^verbatim>\<open>credentials\<close> object of a login request.\<close>

record credentials =
  cred_username :: "string option"
  cred_email :: "string option"
  cred_password :: "string option"
  cred_realm :: "string option"
  cred_ttl :: "jsnum option"

text \<open>The \<^verbatim>\<open>query\<close> object built by \<^verbatim>\<open>normalizeCredentials\<close>, initially \<^verbatim>\<open>{}\<close>.\<close>

record query =
  q_email :: "string option"
  q_username :: "string option"
  q_realm :: "string option"

definition empty_query :: query where
  "empty_query = \<lparr>q_email = None, q_username = None, q_realm = None\<rparr>"

definition empty_credentials :: credentials where
  "empty_credentials =
     \<lparr>cred_username = None, cred_email = None, cred_password = None,
      cred_realm = None, cred_ttl = None\<rparr>"

section \<open>Credential normalisation\<close>

text \<open>
  \<^verbatim>\<open>splitPrincipal(name, realmDelimiter)\<close> returns the two-element array
  \<^verbatim>\<open>[realm-or-null, principal]\<close>, here a pair.
\<close>

definition splitPrincipal :: "string \<Rightarrow> string option \<Rightarrow> string option \<times> string" where
  "splitPrincipal name realmDelimiter =
     (case realmDelimiter of
        None \<Rightarrow> (None, name)
      | Some d \<Rightarrow>
          if d = [] then (None, name)
          else (case indexOf name d of
                  None \<Rightarrow> (None, name)
                | Some index \<Rightarrow> (Some (take index name), drop (index + length d) name)))"

text \<open>
  \<^verbatim>\<open>StormpathUser.normalizeCredentials(credentials, realmRequired, realmDelimiter)\<close>.
  A missing \<^verbatim>\<open>credentials\<close> argument is replaced by \<^verbatim>\<open>{}\<close>. The two branches on
  \<^verbatim>\<open>credentials.email\<close> and \<^verbatim>\<open>credentials.username\<close> test truthiness, so the
  bound string is never empty there.
\<close>

definition normalizeCredentials :: "credentials option \<Rightarrow> bool \<Rightarrow> string option \<Rightarrow> query" where
  "normalizeCredentials credentials realmRequired realmDelimiter =
     (let c = (case credentials of None \<Rightarrow> empty_credentials | Some c \<Rightarrow> c) in
      if \<not> realmRequired then
        (if truthy_str (cred_email c) then empty_query\<lparr>q_email := cred_email c\<rparr>
         else if truthy_str (cred_username c) then empty_query\<lparr>q_username := cred_username c\<rparr>
         else empty_query)
      else
        (let q0 = (if truthy_str (cred_realm c) then empty_query\<lparr>q_realm := cred_realm c\<rparr>
                   else empty_query)
         in if truthy_str (cred_email c) then
              (case cred_email c of
                 None \<Rightarrow> q0
               | Some name \<Rightarrow>
                   (let parts = splitPrincipal name realmDelimiter;
                        q1 = q0\<lparr>q_email := Some (snd parts)\<rparr>
                    in if truthy_str (fst parts) then q1\<lparr>q_realm := fst parts\<rparr> else q1))
            else if truthy_str (cred_username c) then
              (case cred_username c of
                 None \<Rightarrow> q0
               | Some name \<Rightarrow>
                   (let parts = splitPrincipal name realmDelimiter;
                        q1 = q0\<lparr>q_username := Some (snd parts)\<rparr>
                    in if truthy_str (fst parts) then q1\<lparr>q_realm := fst parts\<rparr> else q1))
            else q0))"


section \<open>Errors, accounts, tokens and settings\<close>

text \<open>
  A JavaScript \<^verbatim>\<open>Error\<close> with the two properties the model file attaches to it.
  \<^verbatim>\<open>new Error(msg)\<close> carries neither a \<^verbatim>\<open>statusCode\<close> nor a \<^verbatim>\<open>code\<close>.
\<close>

record js_error =
  err_message :: string
  err_statusCode :: "int option"
  err_code :: "string option"

definition Error :: "string \<Rightarrow> js_error" where
  "Error msg = \<lparr>err_message = msg, err_statusCode = None, err_code = None\<rparr>"

record account =
  acct_id :: string
  acct_realm :: "string option"
  acct_username :: "string option"
  acct_email :: "string option"
  acct_password :: "string option"
  acct_emailVerified :: bool
  acct_verificationToken :: "string option"

text \<open>
  An access token; \<open>tok_data_user\<close> is the \<^verbatim>\<open>token.__data.user\<close> slot that
  \<^verbatim>\<open>login\<close> fills when the caller asked to include the user.
\<close>

record access_token =
  tok_id :: string
  tok_ttl :: jsnum
  tok_userId :: string
  tok_data_user :: "account option"

text \<open>The part of \<^verbatim>\<open>StormpathUser.settings\<close> that the model file reads.\<close>

record settings =
  set_ttl :: "jsnum option"
  set_maxTTL :: "jsnum option"
  set_realmRequired :: bool
  set_realmDelimiter :: "string option"
  set_emailVerificationRequired :: bool

definition DEFAULT_TTL :: int where
  "DEFAULT_TTL = 1209600"

definition DEFAULT_MAX_TTL :: int where
  "DEFAULT_MAX_TTL = 31556926"

text \<open>
  The two assignments of \<^verbatim>\<open>StormpathUser.setup\<close> that touch the settings:
  \<^verbatim>\<open>settings.maxTTL = settings.maxTTL || DEFAULT_MAX_TTL\<close> and
  \<^verbatim>\<open>settings.ttl = settings.ttl || DEFAULT_TTL\<close>. The module runs \<^verbatim>\<open>setup\<close> when it is
  loaded, so every later call sees settings of this form.
\<close>

definition StormpathUser_setup :: "settings \<Rightarrow> settings" where
  "StormpathUser_setup s =
     (let s1 = s\<lparr>set_maxTTL :=
                  (if truthy_num (set_maxTTL s) then set_maxTTL s else Some (Num DEFAULT_MAX_TTL))\<rparr>
      in s1\<lparr>set_ttl :=
                  (if truthy_num (set_ttl s1) then set_ttl s1 else Some (Num DEFAULT_TTL))\<rparr>)"

text \<open>
  The first argument of \<^verbatim>\<open>createAccessToken\<close> is the requested ttl. The source does
  not check its type, so it is any JavaScript value: \<^verbatim>\<open>undefined\<close>, \<^verbatim>\<open>null\<close>, a
  boolean, a number, a string, an array, or (in the two-argument form) a plain options
  object. \<^verbatim>\<open>login\<close> passes the credentials object as options, so options objects are
  credentials here.
\<close>

type_synonym token_options = credentials

datatype jsval =
    Undefined
  | Null
  | Boolean bool
  | Number jsnum
  | String string
  | Object token_options
  | Array "jsval list"

text \<open>Truthiness, as \<^verbatim>\<open>ttl || settings.ttl\<close> tests it.\<close>

fun truthy :: "jsval \<Rightarrow> bool" where
  "truthy Undefined = False"
| "truthy Null = False"
| "truthy (Boolean b) = b"
| "truthy (Number n) = truthy_num (Some n)"
| "truthy (String s) = (s \<noteq> [])"
| "truthy (Object opts) = True"
| "truthy (Array vals) = True"

text \<open>\<^verbatim>\<open>typeof v === 'object'\<close>: true of \<^verbatim>\<open>null\<close>, of objects and of arrays.\<close>

fun typeof_object :: "jsval \<Rightarrow> bool" where
  "typeof_object Null = True"
| "typeof_object (Object opts) = True"
| "typeof_object (Array vals) = True"
| "typeof_object v = False"

text \<open>\<^verbatim>\<open>Array.prototype.join\<close> with the separator \<^verbatim>\<open>,\<close>, on the converted elements.\<close>

fun join_comma :: "string list \<Rightarrow> string" where
  "join_comma [] = []"
| "join_comma [s] = s"
| "join_comma (s # t # rest) = s @ '','' @ join_comma (t # rest)"

text \<open>
  The conversion of a value to a string, which the conversion of an array to a number goes
  through. The first argument is the runtime's conversion of a number to a string. An
  array is joined; its \<^verbatim>\<open>undefined\<close> and \<^verbatim>\<open>null\<close> elements give the empty string.
\<close>

fun ToString :: "(jsnum \<Rightarrow> string) \<Rightarrow> jsval \<Rightarrow> string" where
  "ToString nts Undefined = ''undefined''"
| "ToString nts Null = ''null''"
| "ToString nts (Boolean b) = (if b then ''true'' else ''false'')"
| "ToString nts (Number n) = nts n"
| "ToString nts (String s) = s"
| "ToString nts (Object opts) = ''[object Object]''"
| "ToString nts (Array vals) =
     join_comma (map (\<lambda>v. if v = Undefined \<or> v = Null then [] else ToString nts v) vals)"

fun num_val :: "jsnum option \<Rightarrow> jsval" where
  "num_val None = Undefined"
| "num_val (Some n) = Number n"

section \<open>The external collaborators\<close>

text \<open>
  Modelled from the spec: the Account Directory (the connector behind
  \<^verbatim>\<open>findOne\<close>, \<^verbatim>\<open>findById\<close> and \<^verbatim>\<open>save\<close>), the Session Store (the
  \<^verbatim>\<open>accessTokens\<close> relation and the AccessToken model) and \<^verbatim>\<open>bcrypt.compare\<close> are
  libraries outside the repository. They are modelled as a state: the stored accounts and
  tokens, the hash comparison as a function, the identifiers the store will hand out, a
  schedule that says which of the coming external calls fail and with which error, and a
  log of every external call made. The state also carries the two conversions of the
  JavaScript runtime between strings and numbers, which \<^verbatim>\<open>Math.min\<close> applies to a
  requested ttl that is a string or an array; nothing is assumed about them.
\<close>

datatype event =
    DirFindOne query
  | DirFindById string
  | DirSave account
  | BcryptCompare string string
  | TokCreate string jsnum
  | TokFindById string
  | TokDestroy string

record world =
  w_accounts :: "account list"
  w_tokens :: "access_token list"
  w_bcrypt :: "string \<Rightarrow> string \<Rightarrow> bool"
  w_id_gen :: "nat \<Rightarrow> string"
  w_issued :: nat
  w_faults :: "js_error option list"
  w_log :: "event list"
  w_StringToNumber :: "string \<Rightarrow> jsnum"
  w_NumberToString :: "jsnum \<Rightarrow> string"

text \<open>
  Every external call is logged and consumes the head of the schedule; an empty schedule
  means that no further call fails.
\<close>

definition next_fault :: "world \<Rightarrow> js_error option" where
  "next_fault w = (case w_faults w of [] \<Rightarrow> None | f # fs \<Rightarrow> f)"

definition external_call :: "event \<Rightarrow> world \<Rightarrow> js_error option \<times> world" where
  "external_call ev w =
     (next_fault w, w\<lparr>w_faults := tl (w_faults w), w_log := w_log w @ [ev]\<rparr>)"

text \<open>
  Modelled from the spec: \<^verbatim>\<open>findOne({where: query})\<close> returns the first account whose
  properties equal every property that the query has.
\<close>

definition matches :: "query \<Rightarrow> account \<Rightarrow> bool" where
  "matches q a =
     ((case q_email q of None \<Rightarrow> True | Some e \<Rightarrow> acct_email a = Some e) \<and>
      (case q_username q of None \<Rightarrow> True | Some u \<Rightarrow> acct_username a = Some u) \<and>
      (case q_realm q of None \<Rightarrow> True | Some r \<Rightarrow> acct_realm a = Some r))"

definition findOne :: "query \<Rightarrow> world \<Rightarrow> (js_error + account option) \<times> world" where
  "findOne q w =
     (case external_call (DirFindOne q) w of
        (Some err, w') \<Rightarrow> (Inl err, w')
      | (None, w') \<Rightarrow> (Inr (find (matches q) (w_accounts w')), w'))"

definition findById :: "string \<Rightarrow> world \<Rightarrow> (js_error + account option) \<times> world" where
  "findById uid w =
     (case external_call (DirFindById uid) w of
        (Some err, w') \<Rightarrow> (Inl err, w')
      | (None, w') \<Rightarrow> (Inr (find (\<lambda>a. acct_id a = uid) (w_accounts w')), w'))"

text \<open>Modelled from the spec: \<^verbatim>\<open>user.save\<close> writes the account back under its id.\<close>

definition save :: "account \<Rightarrow> world \<Rightarrow> (js_error + unit) \<times> world" where
  "save user w =
     (case external_call (DirSave user) w of
        (Some err, w') \<Rightarrow> (Inl err, w')
      | (None, w') \<Rightarrow>
          (Inr (),
           w'\<lparr>w_accounts :=
                 map (\<lambda>a. if acct_id a = acct_id user then user else a) (w_accounts w')\<rparr>))"

text \<open>
  Modelled from the spec: \<^verbatim>\<open>bcrypt.compare(plain, hash, cb)\<close> reports an error or
  whether the plain text matches the hash.
\<close>

definition bcrypt_compare :: "string \<Rightarrow> string \<Rightarrow> world \<Rightarrow> (js_error + bool) \<times> world" where
  "bcrypt_compare plain hash w =
     (case external_call (BcryptCompare plain hash) w of
        (Some err, w') \<Rightarrow> (Inl err, w')
      | (None, w') \<Rightarrow> (Inr (w_bcrypt w' plain hash), w'))"

text \<open>
  Modelled from the spec: \<^verbatim>\<open>user.accessTokens.create({ttl: ttl}, cb)\<close> stores a new
  token for the user with the given ttl; \<^verbatim>\<open>findById\<close> on the AccessToken model looks a
  token up by id; \<^verbatim>\<open>accessToken.destroy\<close> removes it.
\<close>

definition accessTokens_create ::
    "account \<Rightarrow> jsnum \<Rightarrow> world \<Rightarrow> (js_error + access_token) \<times> world" where
  "accessTokens_create user ttl w =
     (case external_call (TokCreate (acct_id user) ttl) w of
        (Some err, w') \<Rightarrow> (Inl err, w')
      | (None, w') \<Rightarrow>
          (let token = \<lparr>tok_id = w_id_gen w' (w_issued w'), tok_ttl = ttl,
                        tok_userId = acct_id user, tok_data_user = None\<rparr>
           in (Inr token,
               w'\<lparr>w_tokens := w_tokens w' @ [token], w_issued := Suc (w_issued w')\<rparr>)))"

definition accessToken_findById ::
    "string \<Rightarrow> world \<Rightarrow> (js_error + access_token option) \<times> world" where
  "accessToken_findById tokenId w =
     (case external_call (TokFindById tokenId) w of
        (Some err, w') \<Rightarrow> (Inl err, w')
      | (None, w') \<Rightarrow> (Inr (find (\<lambda>t. tok_id t = tokenId) (w_tokens w')), w'))"

definition accessToken_destroy :: "access_token \<Rightarrow> world \<Rightarrow> (js_error + unit) \<times> world" where
  "accessToken_destroy token w =
     (case external_call (TokDestroy (tok_id token)) w of
        (Some err, w') \<Rightarrow> (Inl err, w')
      | (None, w') \<Rightarrow>
          (Inr (), w'\<lparr>w_tokens := filter (\<lambda>t. tok_id t \<noteq> tok_id token) (w_tokens w')\<rparr>))"


section \<open>The operations of the model file\<close>

text \<open>
  Callbacks are written in direct style: an operation that ends in \<^verbatim>\<open>fn(err)\<close> returns
  \<open>Inl err\<close>, one that ends in \<^verbatim>\<open>fn(null, value)\<close> returns \<open>Inr value\<close>, together
  with the state of the collaborators after the call.
\<close>

text \<open>
  The conversion of a value to a number that \<^verbatim>\<open>Math.min\<close> applies to its arguments.
  A string is converted by the runtime; an array is converted to a string first.
\<close>

fun ToNumber :: "world \<Rightarrow> jsval \<Rightarrow> jsnum" where
  "ToNumber w Undefined = NaN"
| "ToNumber w Null = Num 0"
| "ToNumber w (Boolean b) = (if b then Num 1 else Num 0)"
| "ToNumber w (Number n) = n"
| "ToNumber w (String s) = w_StringToNumber w s"
| "ToNumber w (Object opts) = NaN"
| "ToNumber w (Array vals) = w_StringToNumber w (ToString (w_NumberToString w) (Array vals))"

text \<open>
  The exception that reading a property of \<^verbatim>\<open>null\<close> throws. It reaches the caller as
  an exception and not through the callback; the model returns it as the failure of the
  call.
\<close>

definition TypeError :: "string \<Rightarrow> js_error" where
  "TypeError msg = \<lparr>err_message = msg, err_statusCode = None, err_code = None\<rparr>"

text \<open>
  \<^verbatim>\<open>createAccessToken(ttl, options, cb)\<close>. In the form \<^verbatim>\<open>createAccessToken(ttl, cb)\<close>
  the options are absent. When \<^verbatim>\<open>typeof ttl === 'object'\<close> and there are no options,
  \<^verbatim>\<open>ttl\<close> is taken for the options object and the ttl is read from its property
  \<^verbatim>\<open>ttl\<close>: that read throws when the value is \<^verbatim>\<open>null\<close>, and gives
  \<^verbatim>\<open>undefined\<close> for an array. The ttl handed to the Session Store is
  \<^verbatim>\<open>Math.min(ttl || settings.ttl, settings.maxTTL)\<close>. The first definition is the
  reading of the arguments, the second the function.
\<close>

definition createAccessToken_args :: "jsval \<Rightarrow> token_options option \<Rightarrow> js_error + jsval" where
  "createAccessToken_args ttl options =
     (if typeof_object ttl \<and> options = None then
        (case ttl of
           Null \<Rightarrow> Inl (TypeError ''Cannot read property of null'')
         | Object opts \<Rightarrow> Inr (num_val (cred_ttl opts))
         | _ \<Rightarrow> Inr Undefined)
      else Inr ttl)"

definition createAccessToken ::
    "settings \<Rightarrow> account \<Rightarrow> jsval \<Rightarrow> token_options option \<Rightarrow> world
      \<Rightarrow> (js_error + access_token) \<times> world" where
  "createAccessToken userModel_settings this ttl options w =
     (case createAccessToken_args ttl options of
        Inl thrown \<Rightarrow> (Inl thrown, w)
      | Inr ttl1 \<Rightarrow>
          (let ttl2 = Math_min
                        (ToNumber w
                           (if truthy ttl1 then ttl1 else num_val (set_ttl userModel_settings)))
                        (ToNumber w (num_val (set_maxTTL userModel_settings)))
           in accessTokens_create this ttl2 w))"

text \<open>\<^verbatim>\<open>user.hasPassword(plain, fn)\<close>.\<close>

definition hasPassword :: "account \<Rightarrow> string option \<Rightarrow> world \<Rightarrow> (js_error + bool) \<times> world" where
  "hasPassword this plain w =
     (if truthy_str (acct_password this) \<and> truthy_str plain then
        (case (plain, acct_password this) of
           (Some p, Some h) \<Rightarrow>
             (case bcrypt_compare p h w of
                (Inl err, w') \<Rightarrow> (Inl err, w')
              | (Inr isMatch, w') \<Rightarrow> (Inr isMatch, w'))
         | _ \<Rightarrow> (Inr False, w))
      else (Inr False, w))"

text \<open>
  The \<^verbatim>\<open>include\<close> argument of \<^verbatim>\<open>login\<close>: absent, a string or an array of strings.
  \<^verbatim>\<open>toLowerCase\<close> is modelled on the ASCII letters.
\<close>

datatype include_arg = IncUndefined | IncString string | IncArray "string list"

definition toLowerCase_char :: "char \<Rightarrow> char" where
  "toLowerCase_char ch =
     (let n = (of_char ch :: nat) in if 65 \<le> n \<and> n \<le> 90 then char_of (n + 32) else ch)"

definition toLowerCase :: "string \<Rightarrow> string" where
  "toLowerCase s = map toLowerCase_char s"

text \<open>
  \<^verbatim>\<open>include = (include || '')\<close> followed by the lower-casing of the array elements or
  of the string.
\<close>

definition normalize_include :: "include_arg \<Rightarrow> include_arg" where
  "normalize_include include =
     (case include of
        IncUndefined \<Rightarrow> IncString (toLowerCase [])
      | IncString s \<Rightarrow> IncString (toLowerCase s)
      | IncArray vals \<Rightarrow> IncArray (map toLowerCase vals))"

text \<open>
  The test of \<^verbatim>\<open>tokenHandler\<close>:
  \<^verbatim>\<open>Array.isArray(include) ? include.indexOf('user') !== -1 : include === 'user'\<close>.
\<close>

definition includes_user :: "include_arg \<Rightarrow> bool" where
  "includes_user include =
     (case include of
        IncArray vals \<Rightarrow> ''user'' \<in> set vals
      | IncString s \<Rightarrow> s = ''user''
      | IncUndefined \<Rightarrow> False)"

text \<open>The errors that \<^verbatim>\<open>login\<close> builds.\<close>

definition err1 :: js_error where
  "err1 = (Error ''realm is required'')
            \<lparr>err_statusCode := Some 400, err_code := Some ''REALM_REQUIRED''\<rparr>"

definition err2 :: js_error where
  "err2 = (Error ''username or email is required'')
            \<lparr>err_statusCode := Some 400, err_code := Some ''USERNAME_EMAIL_REQUIRED''\<rparr>"

definition defaultError :: js_error where
  "defaultError = (Error ''login failed'')
            \<lparr>err_statusCode := Some 401, err_code := Some ''LOGIN_FAILED''\<rparr>"

definition emailNotVerifiedError :: js_error where
  "emailNotVerifiedError = (Error ''login failed as the email has not been verified'')
            \<lparr>err_statusCode := Some 401, err_code := Some ''LOGIN_FAILED_EMAIL_NOT_VERIFIED''\<rparr>"

text \<open>
  The local variables \<^verbatim>\<open>realmRequired\<close> and \<^verbatim>\<open>query\<close> of \<^verbatim>\<open>login\<close>. The
  delimiter is handed to \<^verbatim>\<open>normalizeCredentials\<close> only when a realm is required.
\<close>

definition login_realmRequired :: "settings \<Rightarrow> bool" where
  "login_realmRequired self_settings =
     (set_realmRequired self_settings \<or> truthy_str (set_realmDelimiter self_settings))"

definition login_query :: "settings \<Rightarrow> credentials \<Rightarrow> query" where
  "login_query self_settings credentials =
     (let realmRequired = login_realmRequired self_settings;
          realmDelimiter = (if realmRequired then set_realmDelimiter self_settings else None)
      in normalizeCredentials (Some credentials) realmRequired realmDelimiter)"

text \<open>
  \<^verbatim>\<open>tokenHandler(err, token)\<close>, the callback that \<^verbatim>\<open>login\<close> gives to
  \<^verbatim>\<open>createAccessToken\<close>.
\<close>

definition tokenHandler ::
    "include_arg \<Rightarrow> account \<Rightarrow> (js_error + access_token) \<Rightarrow> (js_error + access_token)" where
  "tokenHandler include user r =
     (case r of
        Inl err \<Rightarrow> Inl err
      | Inr token \<Rightarrow>
          if includes_user include then Inr (token\<lparr>tok_data_user := Some user\<rparr>)
          else Inr token)"

text \<open>
  \<^verbatim>\<open>StormpathUser.login(credentials, include, fn)\<close>. The \<^verbatim>\<open>createAccessToken\<close> of this
  file takes three parameters, so \<^verbatim>\<open>login\<close> calls it with the credentials as options.
\<close>

definition login ::
    "settings \<Rightarrow> credentials \<Rightarrow> include_arg \<Rightarrow> world \<Rightarrow> (js_error + access_token) \<times> world" where
  "login self_settings credentials include0 w =
     (let include = normalize_include include0;
          realmRequired = login_realmRequired self_settings;
          query = login_query self_settings credentials
      in if realmRequired \<and> \<not> truthy_str (q_realm query) then (Inl err1, w)
         else if \<not> truthy_str (q_email query) \<and> \<not> truthy_str (q_username query)
           then (Inl err2, w)
         else
           (case findOne query w of
              (Inl err, w1) \<Rightarrow> (Inl defaultError, w1)
            | (Inr (Some user), w1) \<Rightarrow>
                (case hasPassword user (cred_password credentials) w1 of
                   (Inl err, w2) \<Rightarrow> (Inl defaultError, w2)
                 | (Inr isMatch, w2) \<Rightarrow>
                     if isMatch then
                       (if set_emailVerificationRequired self_settings
                           \<and> \<not> acct_emailVerified user
                        then (Inl emailNotVerifiedError, w2)
                        else
                          (case createAccessToken self_settings user
                                  (num_val (cred_ttl credentials)) (Some credentials) w2 of
                             (r, w3) \<Rightarrow> (tokenHandler include user r, w3)))
                     else (Inl defaultError, w2))
            | (Inr None, w1) \<Rightarrow> (Inl defaultError, w1)))"

text \<open>\<^verbatim>\<open>StormpathUser.logout(tokenId, fn)\<close>.\<close>

definition logout :: "string \<Rightarrow> world \<Rightarrow> (js_error + unit) \<times> world" where
  "logout tokenId w =
     (case accessToken_findById tokenId w of
        (Inl err, w1) \<Rightarrow> (Inl err, w1)
      | (Inr (Some accessToken), w1) \<Rightarrow> accessToken_destroy accessToken w1
      | (Inr None, w1) \<Rightarrow> (Inl (Error ''could not find accessToken''), w1))"

text \<open>
  \<^verbatim>\<open>StormpathUser.confirm(uid, token, redirect, fn)\<close>; \<^verbatim>\<open>uid\<close> and \<^verbatim>\<open>token\<close> are the
  documented strings. The \<^verbatim>\<open>redirect\<close> argument is not read by the function.
\<close>

definition confirm ::
    "string \<Rightarrow> string \<Rightarrow> string option \<Rightarrow> world \<Rightarrow> (js_error + unit) \<times> world" where
  "confirm uid token redirect w =
     (case findById uid w of
        (Inl err, w1) \<Rightarrow> (Inl err, w1)
      | (Inr found, w1) \<Rightarrow>
          (case found of
             Some user \<Rightarrow>
               if acct_verificationToken user = Some token then
                 save (user\<lparr>acct_verificationToken := None, acct_emailVerified := True\<rparr>) w1
               else
                 (Inl ((Error (''Invalid token: '' @ token))
                         \<lparr>err_statusCode := Some 400, err_code := Some ''INVALID_TOKEN''\<rparr>),
                  w1)
           | None \<Rightarrow>
               (Inl ((Error (''StormpathUser not found: '' @ uid))
                       \<lparr>err_statusCode := Some 404, err_code := Some ''USER_NOT_FOUND''\<rparr>),
                w1)))"


section \<open>Example states\<close>

text \<open>
  A small configuration, account and collaborator state on which the theorems below are
  instantiated. The example hash function accepts exactly the plain text behind the
  prefix \<^verbatim>\<open>hash:\<close>.
\<close>

definition settings0 :: settings where
  "settings0 =
     \<lparr>set_ttl = None, set_maxTTL = None, set_realmRequired = False,
      set_realmDelimiter = None, set_emailVerificationRequired = False\<rparr>"

definition alice :: account where
  "alice =
     \<lparr>acct_id = ''1'', acct_realm = None, acct_username = Some ''alice'',
      acct_email = Some ''alice@example.com'', acct_password = Some ''hash:secret'',
      acct_emailVerified = False, acct_verificationToken = Some ''tok123''\<rparr>"

text \<open>
  The example conversions read and write unsigned decimal numerals, on which they agree
  with the runtime: the empty string and \<^verbatim>\<open>0\<close> are read as 0.
\<close>

fun decimal_digits :: "nat \<Rightarrow> string \<Rightarrow> nat option" where
  "decimal_digits acc [] = Some acc"
| "decimal_digits acc (ch # rest) =
     (let n = (of_char ch :: nat)
      in if 48 \<le> n \<and> n \<le> 57 then decimal_digits (10 * acc + (n - 48)) rest else None)"

definition example_StringToNumber :: "string \<Rightarrow> jsnum" where
  "example_StringToNumber s =
     (case decimal_digits 0 s of None \<Rightarrow> NaN | Some n \<Rightarrow> Num (int n))"

fun nat_digits :: "nat \<Rightarrow> string" where
  "nat_digits n =
     (if n < 10 then [char_of (48 + n)]
      else nat_digits (n div 10) @ [char_of (48 + n mod 10)])"

definition example_NumberToString :: "jsnum \<Rightarrow> string" where
  "example_NumberToString n =
     (case n of
        NaN \<Rightarrow> ''NaN''
      | Num i \<Rightarrow> if i < 0 then CHR ''-'' # nat_digits (nat (- i)) else nat_digits (nat i))"

definition world0 :: world where
  "world0 =
     \<lparr>w_accounts = [alice], w_tokens = [],
      w_bcrypt = (\<lambda>plain hash. hash = ''hash:'' @ plain),
      w_id_gen = (\<lambda>n. replicate (Suc n) CHR ''t''), w_issued = 0,
      w_faults = [], w_log = [],
      w_StringToNumber = example_StringToNumber,
      w_NumberToString = example_NumberToString\<rparr>"


definition token0 :: access_token where
  "token0 = \<lparr>tok_id = ''abc'', tok_ttl = Num 1209600, tok_userId = ''1'', tok_data_user = None\<rparr>"

definition world1 :: world where
  "world1 = world0\<lparr>w_tokens := [token0]\<rparr>"

section \<open>Facts about the modelled collaborators and library functions\<close>

text \<open>
  \<open>indexOf\<close> finds the first occurrence: the delimiter stands at the returned index and
  at no smaller one, and \<open>None\<close> means that it stands nowhere.
\<close>

lemma take_len_le: "take (length d) s = d \<Longrightarrow> length d \<le> length s"
  by (drule arg_cong[where f=length]) simp

lemma indexOf_Some:
  "indexOf s d = Some i \<Longrightarrow>
     take (length d) (drop i s) = d \<and> i + length d \<le> length s \<and>
     (\<forall>j<i. take (length d) (drop j s) \<noteq> d)"
proof (induction s arbitrary: i)
  case Nil
  then show ?case by (auto split: if_splits)
next
  case (Cons c cs)
  show ?case
  proof (cases "take (length d) (c # cs) = d")
    case True
    with Cons.prems have "i = 0" by simp
    with True take_len_le[OF True] show ?thesis by simp
  next
    case False
    with Cons.prems obtain k where k: "indexOf cs d = Some k" "i = Suc k" by auto
    from Cons.IH[OF k(1)] have ih: "take (length d) (drop k cs) = d" "k + length d \<le> length cs"
      "\<forall>j<k. take (length d) (drop j cs) \<noteq> d" by auto
    have "\<forall>j<Suc k. take (length d) (drop j (c # cs)) \<noteq> d"
    proof (intro allI impI)
      fix j assume "j < Suc k"
      show "take (length d) (drop j (c # cs)) \<noteq> d"
      proof (cases j)
        case 0 with False show ?thesis by simp
      next
        case (Suc j') with \<open>j < Suc k\<close> ih(3) show ?thesis by simp
      qed
    qed
    with ih k show ?thesis by simp
  qed
qed

lemma indexOf_None:
  "indexOf s d = None \<Longrightarrow> take (length d) (drop j s) \<noteq> d"
proof (induction s arbitrary: j)
  case Nil
  then show ?case by (auto split: if_splits)
next
  case (Cons c cs)
  then show ?case by (cases j) (auto split: if_splits)
qed

lemma indexOf_first:
  assumes "name = pre @ d @ post"
    and "\<forall>j<length pre. take (length d) (drop j name) \<noteq> d"
  shows "indexOf name d = Some (length pre)"
proof -
  have m: "take (length d) (drop (length pre) name) = d"
    using assms(1) by simp
  show ?thesis
  proof (cases "indexOf name d")
    case None
    from indexOf_None[OF None, of "length pre"] m show ?thesis by simp
  next
    case (Some k)
    from indexOf_Some[OF Some] have k: "take (length d) (drop k name) = d"
      "\<forall>j<k. take (length d) (drop j name) \<noteq> d" by auto
    have "\<not> k < length pre" using assms(2) k(1) by auto
    moreover have "\<not> length pre < k" using k(2) m by auto
    ultimately have "k = length pre" by simp
    with Some show ?thesis by simp
  qed
qed

lemma indexOf_absent:
  assumes "\<forall>j. take (length d) (drop j name) \<noteq> d"
  shows "indexOf name d = None"
proof (cases "indexOf name d")
  case None then show ?thesis .
next
  case (Some k)
  from indexOf_Some[OF Some] assms show ?thesis by auto
qed

lemma splitPrincipal_found:
  assumes "delim \<noteq> []" "name = pre @ delim @ post"
    and "\<forall>j<length pre. take (length delim) (drop j name) \<noteq> delim"
  shows "splitPrincipal name (Some delim) = (Some pre, post)"
  using assms indexOf_first[OF assms(2,3)] by (simp add: splitPrincipal_def)

lemma splitPrincipal_whole:
  assumes "\<not> truthy_str d \<or> (\<exists>delim. d = Some delim \<and> (\<forall>j. take (length delim) (drop j name) \<noteq> delim))"
  shows "splitPrincipal name d = (None, name)"
  using assms
  by (auto simp: splitPrincipal_def truthy_str_def indexOf_absent split: option.splits)

text \<open>
  The two outcomes of \<open>splitPrincipal\<close> and what the normaliser makes of them. A missing
  credentials object is normalised like the empty one.
\<close>

lemma normalizeCredentials_missing:
  "normalizeCredentials None rr d = normalizeCredentials (Some empty_credentials) rr d"
  by (simp add: normalizeCredentials_def)

lemma normalizeCredentials_realm_not_required:
  "normalizeCredentials (Some c) False d =
     \<lparr>q_email = (if truthy_str (cred_email c) then cred_email c else None),
      q_username = (if \<not> truthy_str (cred_email c) \<and> truthy_str (cred_username c)
                    then cred_username c else None),
      q_realm = None\<rparr>"
  by (simp add: normalizeCredentials_def empty_query_def)

lemma normalizeCredentials_email_split:
  assumes "cred_email c = Some name" "name \<noteq> []"
    and "splitPrincipal name d = (r, p)"
  shows "normalizeCredentials (Some c) True d =
     \<lparr>q_email = Some p, q_username = None,
      q_realm = (if truthy_str r then r
                 else if truthy_str (cred_realm c) then cred_realm c else None)\<rparr>"
  using assms by (simp add: normalizeCredentials_def empty_query_def truthy_str_def)

lemma normalizeCredentials_username_split:
  assumes "\<not> truthy_str (cred_email c)" "cred_username c = Some name" "name \<noteq> []"
    and "splitPrincipal name d = (r, p)"
  shows "normalizeCredentials (Some c) True d =
     \<lparr>q_email = None, q_username = Some p,
      q_realm = (if truthy_str r then r
                 else if truthy_str (cred_realm c) then cred_realm c else None)\<rparr>"
  using assms by (simp add: normalizeCredentials_def empty_query_def truthy_str_def)

text \<open>
  Every external call appends its event to the log and moves the schedule on, so a state
  that comes back unchanged shows that no collaborator was called.
\<close>

lemma findOne_cases:
  "findOne q w = (r, w1) \<Longrightarrow>
     w1 = w\<lparr>w_faults := tl (w_faults w), w_log := w_log w @ [DirFindOne q]\<rparr>"
  by (auto simp: findOne_def external_call_def split: option.splits)

lemma hasPassword_cases:
  "hasPassword u plain w1 = (r, w2) \<Longrightarrow>
     (w2 = w1 \<and> r = Inr False \<and> (\<not> truthy_str (acct_password u) \<or> \<not> truthy_str plain)) \<or>
     (\<exists>p h. plain = Some p \<and> acct_password u = Some h \<and> p \<noteq> [] \<and> h \<noteq> [] \<and>
        w2 = w1\<lparr>w_faults := tl (w_faults w1), w_log := w_log w1 @ [BcryptCompare p h]\<rparr>)"
  by (auto simp: hasPassword_def bcrypt_compare_def external_call_def truthy_str_def
      split: option.splits if_splits sum.splits prod.splits)

lemma hasPassword_falsy:
  "\<not> truthy_str (acct_password a) \<or> \<not> truthy_str plain \<Longrightarrow>
     hasPassword a plain w = (Inr False, w)"
  by (auto simp: hasPassword_def)

lemma login_falsy_password_lookup:
  assumes "\<not> truthy_str (cred_password c)"
    and "\<not> (login_realmRequired s \<and> \<not> truthy_str (q_realm (login_query s c)))"
    and "truthy_str (q_email (login_query s c)) \<or> truthy_str (q_username (login_query s c))"
  shows "login s c inc w
           = (Inl defaultError,
              w\<lparr>w_faults := tl (w_faults w), w_log := w_log w @ [DirFindOne (login_query s c)]\<rparr>)"
proof -
  obtain r w1 where f: "findOne (login_query s c) w = (r, w1)"
    by (cases "findOne (login_query s c) w")
  from findOne_cases[OF f]
  have w1: "w1 = w\<lparr>w_faults := tl (w_faults w), w_log := w_log w @ [DirFindOne (login_query s c)]\<rparr>" .
  have "login s c inc w = (Inl defaultError, w1)"
    using assms f
    by (auto simp: login_def Let_def hasPassword_falsy split: sum.splits option.splits)
  with w1 show ?thesis by simp
qed

lemma login_falsy_password:
  assumes "\<not> truthy_str (cred_password c)"
  shows "login s c inc w = (Inl err1, w) \<or> login s c inc w = (Inl err2, w)
         \<or> login s c inc w
              = (Inl defaultError,
                 w\<lparr>w_faults := tl (w_faults w), w_log := w_log w @ [DirFindOne (login_query s c)]\<rparr>)"
proof (cases "login_realmRequired s \<and> \<not> truthy_str (q_realm (login_query s c))")
  case True
  then show ?thesis by (simp add: login_def)
next
  case nr: False
  show ?thesis
  proof (cases "\<not> truthy_str (q_email (login_query s c)) \<and> \<not> truthy_str (q_username (login_query s c))")
    case True
    with nr show ?thesis by (auto simp add: login_def Let_def)
  next
    case False
    with login_falsy_password_lookup[OF assms nr, of inc w] show ?thesis by blast
  qed
qed

text \<open>The settings after the set-up, and the ttl that reaches the Session Store.\<close>

lemma setup_numbers:
  "\<exists>d m. d \<noteq> 0 \<and> m \<noteq> 0
      \<and> set_ttl (StormpathUser_setup s0) = Some (Num d)
      \<and> set_maxTTL (StormpathUser_setup s0) = Some (Num m)
      \<and> (if truthy_num (set_ttl s0) then set_ttl s0 = Some (Num d) else d = 1209600)
      \<and> (if truthy_num (set_maxTTL s0) then set_maxTTL s0 = Some (Num m) else m = 31556926)"
proof -
  have a: "\<exists>d. d \<noteq> 0 \<and> set_ttl (StormpathUser_setup s0) = Some (Num d)
      \<and> (if truthy_num (set_ttl s0) then set_ttl s0 = Some (Num d) else d = 1209600)"
    by (cases "set_ttl s0" rule: truthy_num.cases)
       (simp_all add: StormpathUser_setup_def DEFAULT_TTL_def Let_def)
  have b: "\<exists>m. m \<noteq> 0 \<and> set_maxTTL (StormpathUser_setup s0) = Some (Num m)
      \<and> (if truthy_num (set_maxTTL s0) then set_maxTTL s0 = Some (Num m) else m = 31556926)"
    by (cases "set_maxTTL s0" rule: truthy_num.cases)
       (simp_all add: StormpathUser_setup_def DEFAULT_MAX_TTL_def Let_def)
  from a b show ?thesis by blast
qed

lemma createAccessToken_number:
  assumes "set_ttl st = Some (Num d)" "set_maxTTL st = Some (Num m)"
  shows "createAccessToken st user (Number (Num n)) opts w
           = accessTokens_create user (Num (min (if n = 0 then d else n) m)) w"
  using assms by (simp add: createAccessToken_def createAccessToken_args_def)

lemma createAccessToken_falsy:
  assumes "set_ttl st = Some (Num d)" "set_maxTTL st = Some (Num m)" "\<not> truthy req"
    and "\<not> (req = Null \<and> opts = None)"
  shows "createAccessToken st user req opts w = accessTokens_create user (Num (min d m)) w"
proof (cases req)
  case Undefined
  with assms show ?thesis by (simp add: createAccessToken_def createAccessToken_args_def)
next
  case Null
  with assms show ?thesis by (auto simp add: createAccessToken_def createAccessToken_args_def)
next
  case (Boolean b)
  with assms show ?thesis by (simp add: createAccessToken_def createAccessToken_args_def)
next
  case (Number k)
  with assms show ?thesis
    by (cases k) (simp_all add: createAccessToken_def createAccessToken_args_def)
next
  case (String str)
  with assms show ?thesis by (simp add: createAccessToken_def createAccessToken_args_def)
next
  case (Object x)
  with assms show ?thesis by simp
next
  case (Array vals)
  with assms show ?thesis by simp
qed

lemma createAccessToken_object:
  "createAccessToken st user (Object ob) None w
     = createAccessToken st user (num_val (cred_ttl ob)) (Some ob) w"
  by (cases "cred_ttl ob") (simp_all add: createAccessToken_def createAccessToken_args_def)

lemma accessTokens_create_ttl:
  "accessTokens_create user t w = (Inr tok, w') \<Longrightarrow>
     tok_ttl tok = t \<and> tok_userId tok = acct_id user \<and> w_tokens w' = w_tokens w @ [tok]"
  by (auto simp: accessTokens_create_def external_call_def Let_def split: option.splits)

lemma accessTokens_create_ok:
  "next_fault w = None \<Longrightarrow>
     \<exists>tok w'. accessTokens_create user t w = (Inr tok, w')"
  by (simp add: accessTokens_create_def external_call_def Let_def)



text \<open>Lookups and updates of the Session Store and of the Account Directory.\<close>

lemma accessToken_findById_cases:
  "accessToken_findById tid w = (r, w1) \<Longrightarrow>
     w1 = w\<lparr>w_faults := tl (w_faults w), w_log := w_log w @ [TokFindById tid]\<rparr>
     \<and> (case r of Inl e \<Rightarrow> next_fault w = Some e
          | Inr t \<Rightarrow> next_fault w = None \<and> t = find (\<lambda>t. tok_id t = tid) (w_tokens w))"
  by (auto simp: accessToken_findById_def external_call_def split: option.splits)

lemma accessToken_destroy_ok:
  "accessToken_destroy t w1 = (Inr u, w2) \<Longrightarrow>
     w_tokens w2 = filter (\<lambda>x. tok_id x \<noteq> tok_id t) (w_tokens w1)"
  by (auto simp: accessToken_destroy_def external_call_def split: option.splits)

lemma find_filter_removed:
  "find (\<lambda>t. tok_id t = tid) (filter (\<lambda>x. tok_id x \<noteq> tid) ts) = None"
  by (induction ts) auto

lemma find_Some_id: "find (\<lambda>t. tok_id t = tid) ts = Some t \<Longrightarrow> tok_id t = tid"
  by (induction ts) (auto split: if_splits)

lemma logout_not_found:
  "next_fault w = None \<Longrightarrow> find (\<lambda>t. tok_id t = tid) (w_tokens w) = None \<Longrightarrow>
     fst (logout tid w) = Inl (Error ''could not find accessToken'')"
  by (simp add: logout_def accessToken_findById_def external_call_def)

lemma findById_cases:
  "findById uid w = (r, w1) \<Longrightarrow>
     w1 = w\<lparr>w_faults := tl (w_faults w), w_log := w_log w @ [DirFindById uid]\<rparr>
     \<and> (case r of Inl e \<Rightarrow> next_fault w = Some e
          | Inr a \<Rightarrow> next_fault w = None \<and> a = find (\<lambda>a. acct_id a = uid) (w_accounts w))"
  by (auto simp: findById_def external_call_def split: option.splits)

lemma save_ok:
  "save u w1 = (Inr x, w2) \<Longrightarrow>
     w_accounts w2 = map (\<lambda>a. if acct_id a = acct_id u then u else a) (w_accounts w1)"
  by (auto simp: save_def external_call_def split: option.splits)

lemma find_acct_id: "find (\<lambda>a. acct_id a = uid) as = Some u \<Longrightarrow> acct_id u = uid"
  by (induction as) (auto split: if_splits)

lemma find_after_save:
  "find (\<lambda>a. acct_id a = uid) as = Some u \<Longrightarrow> acct_id u' = uid \<Longrightarrow>
     find (\<lambda>a. acct_id a = uid) (map (\<lambda>a. if acct_id a = uid then u' else a) as) = Some u'"
  by (induction as) (auto split: if_splits)


section \<open>Login: the generic failure\<close>

text \<open>
  Claim C1. A login that passes the realm check and the username-or-email check reaches
  the directory lookup. From there, whether the lookup reports an error, finds no account,
  the password comparison reports an error, or the password does not match, the caller
  receives the one fixed error \<open>defaultError\<close>, with code \<^verbatim>\<open>LOGIN_FAILED\<close> and status
  401. The result does not depend on which of the four causes occurred nor on the error the
  directory or the comparison reported, so the returned error tells an unknown principal
  from a wrong password in no way.
\<close>

theorem login_generic_failure:
  assumes "\<not> ((set_realmRequired s \<or> truthy_str (set_realmDelimiter s))
               \<and> \<not> truthy_str (q_realm (login_query s c)))"
    and "truthy_str (q_email (login_query s c)) \<or> truthy_str (q_username (login_query s c))"
    and "findOne (login_query s c) w = (found, w1)"
    and "(\<exists>e. found = Inl e) \<or> found = Inr None \<or>
         (\<exists>user cmp w2. found = Inr (Some user)
            \<and> hasPassword user (cred_password c) w1 = (cmp, w2)
            \<and> ((\<exists>e. cmp = Inl e) \<or> cmp = Inr False))"
  shows "fst (login s c inc w) = Inl defaultError
         \<and> err_code defaultError = Some ''LOGIN_FAILED''
         \<and> err_statusCode defaultError = Some 401"
proof -
  have "fst (login s c inc w) = Inl defaultError"
    using assms
    by (auto simp: login_def login_realmRequired_def Let_def split: prod.splits sum.splits option.splits)
  then show ?thesis by (simp add: defaultError_def Error_def)
qed

theorem login_generic_failure_witness:
  "fst (login settings0
          (empty_credentials\<lparr>cred_username := Some ''alice'', cred_password := Some ''secret''\<rparr>)
          IncUndefined (world0\<lparr>w_faults := [Some (Error ''connection refused'')]\<rparr>))
     = Inl defaultError
   \<and> fst (login settings0
          (empty_credentials\<lparr>cred_username := Some ''bob'', cred_password := Some ''secret''\<rparr>)
          IncUndefined world0)
     = Inl defaultError
   \<and> fst (login settings0
          (empty_credentials\<lparr>cred_username := Some ''alice'', cred_password := Some ''secret''\<rparr>)
          IncUndefined (world0\<lparr>w_faults := [None, Some (Error ''bcrypt failure'')]\<rparr>))
     = Inl defaultError
   \<and> fst (login settings0
          (empty_credentials\<lparr>cred_username := Some ''alice'', cred_password := Some ''wrong''\<rparr>)
          IncUndefined world0)
     = Inl defaultError"
proof -
  let ?good = "empty_credentials\<lparr>cred_username := Some ''alice'', cred_password := Some ''secret''\<rparr>"
  let ?bob = "empty_credentials\<lparr>cred_username := Some ''bob'', cred_password := Some ''secret''\<rparr>"
  let ?wrong = "empty_credentials\<lparr>cred_username := Some ''alice'', cred_password := Some ''wrong''\<rparr>"
  let ?w1 = "world0\<lparr>w_faults := [Some (Error ''connection refused'')]\<rparr>"
  let ?w3 = "world0\<lparr>w_faults := [None, Some (Error ''bcrypt failure'')]\<rparr>"
  have 1: "fst (login settings0 ?good IncUndefined ?w1) = Inl defaultError"
    using login_generic_failure [of settings0 ?good ?w1
        "fst (findOne (login_query settings0 ?good) ?w1)"
        "snd (findOne (login_query settings0 ?good) ?w1)" IncUndefined]
    by (simp add: login_query_def login_realmRequired_def normalizeCredentials_def
        empty_query_def empty_credentials_def truthy_str_def settings0_def world0_def
        findOne_def external_call_def next_fault_def)
  have 2: "fst (login settings0 ?bob IncUndefined world0) = Inl defaultError"
    using login_generic_failure [of settings0 ?bob world0
        "fst (findOne (login_query settings0 ?bob) world0)"
        "snd (findOne (login_query settings0 ?bob) world0)" IncUndefined]
    by (simp add: login_query_def login_realmRequired_def normalizeCredentials_def
        empty_query_def empty_credentials_def truthy_str_def settings0_def world0_def alice_def
        findOne_def external_call_def next_fault_def matches_def)
  have 3: "fst (login settings0 ?good IncUndefined ?w3) = Inl defaultError"
    using login_generic_failure [of settings0 ?good ?w3
        "fst (findOne (login_query settings0 ?good) ?w3)"
        "snd (findOne (login_query settings0 ?good) ?w3)" IncUndefined]
    by (simp add: login_query_def login_realmRequired_def normalizeCredentials_def
        empty_query_def empty_credentials_def truthy_str_def settings0_def world0_def alice_def
        findOne_def external_call_def next_fault_def matches_def hasPassword_def
        bcrypt_compare_def)
  have 4: "fst (login settings0 ?wrong IncUndefined world0) = Inl defaultError"
    using login_generic_failure [of settings0 ?wrong world0
        "fst (findOne (login_query settings0 ?wrong) world0)"
        "snd (findOne (login_query settings0 ?wrong) world0)" IncUndefined]
    by (simp add: login_query_def login_realmRequired_def normalizeCredentials_def
        empty_query_def empty_credentials_def truthy_str_def settings0_def world0_def alice_def
        findOne_def external_call_def next_fault_def matches_def hasPassword_def
        bcrypt_compare_def)
  from 1 2 3 4 show ?thesis by blast
qed

section \<open>Credential normalisation\<close>

text \<open>
  Claim C2, as amended. Without a required realm the normaliser copies the email if it is
  non-empty, else the username if it is non-empty, and sets no realm. With a required realm
  and a configured delimiter whose first occurrence splits the principal into \<open>pre\<close>,
  the delimiter and \<open>post\<close>, the part after the delimiter becomes the principal under the
  same field; the part before it becomes the realm, overriding an explicit one, when it is
  not empty, and when it is empty the realm is the explicit \<^verbatim>\<open>credentials.realm\<close> if that
  is non-empty and is absent otherwise. When the delimiter is unconfigured or does not occur,
  the whole string is the principal and the realm is the explicit one, if any. The two
  examples of the specification hold.
\<close>

theorem normalizeCredentials_amended:
  "normalizeCredentials (Some c) False d =
     \<lparr>q_email = (if truthy_str (cred_email c) then cred_email c else None),
      q_username = (if \<not> truthy_str (cred_email c) \<and> truthy_str (cred_username c)
                    then cred_username c else None),
      q_realm = None\<rparr>
   \<and> (delim \<noteq> [] \<and> name = pre @ delim @ post
        \<and> (\<forall>j<length pre. take (length delim) (drop j name) \<noteq> delim) \<longrightarrow>
        (cred_email c = Some name \<longrightarrow>
           normalizeCredentials (Some c) True (Some delim) =
             \<lparr>q_email = Some post, q_username = None,
              q_realm = (if pre \<noteq> [] then Some pre
                         else if truthy_str (cred_realm c) then cred_realm c else None)\<rparr>)
      \<and> (\<not> truthy_str (cred_email c) \<and> cred_username c = Some name \<longrightarrow>
           normalizeCredentials (Some c) True (Some delim) =
             \<lparr>q_email = None, q_username = Some post,
              q_realm = (if pre \<noteq> [] then Some pre
                         else if truthy_str (cred_realm c) then cred_realm c else None)\<rparr>))
   \<and> (whole \<noteq> []
        \<and> (\<not> truthy_str d \<or>
            (\<exists>dl. d = Some dl \<and> (\<forall>j. take (length dl) (drop j whole) \<noteq> dl))) \<longrightarrow>
        (cred_email c = Some whole \<longrightarrow>
           normalizeCredentials (Some c) True d =
             \<lparr>q_email = Some whole, q_username = None,
              q_realm = (if truthy_str (cred_realm c) then cred_realm c else None)\<rparr>)
      \<and> (\<not> truthy_str (cred_email c) \<and> cred_username c = Some whole \<longrightarrow>
           normalizeCredentials (Some c) True d =
             \<lparr>q_email = None, q_username = Some whole,
              q_realm = (if truthy_str (cred_realm c) then cred_realm c else None)\<rparr>))
   \<and> normalizeCredentials
         (Some (empty_credentials\<lparr>cred_username := Some ''tenantA/alice''\<rparr>)) True (Some ''/'') =
       \<lparr>q_email = None, q_username = Some ''alice'', q_realm = Some ''tenantA''\<rparr>
   \<and> normalizeCredentials
         (Some (empty_credentials\<lparr>cred_username := Some ''alice''\<rparr>)) rr None =
       \<lparr>q_email = None, q_username = Some ''alice'', q_realm = None\<rparr>"
proof (intro conjI impI)
  show "normalizeCredentials (Some c) False d =
     \<lparr>q_email = (if truthy_str (cred_email c) then cred_email c else None),
      q_username = (if \<not> truthy_str (cred_email c) \<and> truthy_str (cred_username c)
                    then cred_username c else None),
      q_realm = None\<rparr>"
    by (rule normalizeCredentials_realm_not_required)
next
  assume h: "delim \<noteq> [] \<and> name = pre @ delim @ post
        \<and> (\<forall>j<length pre. take (length delim) (drop j name) \<noteq> delim)"
    and e: "cred_email c = Some name"
  from h have sp: "splitPrincipal name (Some delim) = (Some pre, post)"
    using splitPrincipal_found[of delim name pre post] by blast
  from h have "name \<noteq> []" by auto
  from normalizeCredentials_email_split[OF e this sp]
  show "normalizeCredentials (Some c) True (Some delim) =
             \<lparr>q_email = Some post, q_username = None,
              q_realm = (if pre \<noteq> [] then Some pre
                         else if truthy_str (cred_realm c) then cred_realm c else None)\<rparr>"
    by (simp add: truthy_str_def)
next
  assume h: "delim \<noteq> [] \<and> name = pre @ delim @ post
        \<and> (\<forall>j<length pre. take (length delim) (drop j name) \<noteq> delim)"
    and e: "\<not> truthy_str (cred_email c) \<and> cred_username c = Some name"
  from h have sp: "splitPrincipal name (Some delim) = (Some pre, post)"
    using splitPrincipal_found[of delim name pre post] by blast
  from h have "name \<noteq> []" by auto
  from normalizeCredentials_username_split[OF _ _ this sp] e
  show "normalizeCredentials (Some c) True (Some delim) =
             \<lparr>q_email = None, q_username = Some post,
              q_realm = (if pre \<noteq> [] then Some pre
                         else if truthy_str (cred_realm c) then cred_realm c else None)\<rparr>"
    by (simp add: truthy_str_def)
next
  assume h: "whole \<noteq> []
        \<and> (\<not> truthy_str d \<or>
            (\<exists>dl. d = Some dl \<and> (\<forall>j. take (length dl) (drop j whole) \<noteq> dl)))"
    and e: "cred_email c = Some whole"
  from h have sp: "splitPrincipal whole d = (None, whole)"
    using splitPrincipal_whole[of d whole] by blast
  from h have "whole \<noteq> []" by simp
  from normalizeCredentials_email_split[OF e this sp]
  show "normalizeCredentials (Some c) True d =
             \<lparr>q_email = Some whole, q_username = None,
              q_realm = (if truthy_str (cred_realm c) then cred_realm c else None)\<rparr>"
    by (simp add: truthy_str_def)
next
  assume h: "whole \<noteq> []
        \<and> (\<not> truthy_str d \<or>
            (\<exists>dl. d = Some dl \<and> (\<forall>j. take (length dl) (drop j whole) \<noteq> dl)))"
    and e: "\<not> truthy_str (cred_email c) \<and> cred_username c = Some whole"
  from h have sp: "splitPrincipal whole d = (None, whole)"
    using splitPrincipal_whole[of d whole] by blast
  from h have "whole \<noteq> []" by simp
  from normalizeCredentials_username_split[OF _ _ this sp] e
  show "normalizeCredentials (Some c) True d =
             \<lparr>q_email = None, q_username = Some whole,
              q_realm = (if truthy_str (cred_realm c) then cred_realm c else None)\<rparr>"
    by (simp add: truthy_str_def)
next
  show "normalizeCredentials
         (Some (empty_credentials\<lparr>cred_username := Some ''tenantA/alice''\<rparr>)) True (Some ''/'') =
       \<lparr>q_email = None, q_username = Some ''alice'', q_realm = Some ''tenantA''\<rparr>"
    by (simp add: normalizeCredentials_def empty_credentials_def empty_query_def
        truthy_str_def splitPrincipal_def)
next
  show "normalizeCredentials
         (Some (empty_credentials\<lparr>cred_username := Some ''alice''\<rparr>)) rr None =
       \<lparr>q_email = None, q_username = Some ''alice'', q_realm = None\<rparr>"
    by (simp add: normalizeCredentials_def empty_credentials_def empty_query_def
        truthy_str_def splitPrincipal_def Let_def)
qed

theorem normalizeCredentials_amended_witness:
  "normalizeCredentials
      (Some (empty_credentials\<lparr>cred_email := Some ''acme:bob@example.com'', cred_realm := Some ''other''\<rparr>))
      True (Some '':'')
    = \<lparr>q_email = Some ''bob@example.com'', q_username = None, q_realm = Some ''acme''\<rparr>
   \<and> normalizeCredentials
      (Some (empty_credentials\<lparr>cred_username := Some ''/alice'', cred_realm := Some ''tenantB''\<rparr>))
      True (Some ''/'')
    = \<lparr>q_email = None, q_username = Some ''alice'', q_realm = Some ''tenantB''\<rparr>
   \<and> normalizeCredentials
      (Some (empty_credentials\<lparr>cred_email := Some ''bob@example.com'', cred_realm := Some ''other''\<rparr>))
      True (Some '':'')
    = \<lparr>q_email = Some ''bob@example.com'', q_username = None, q_realm = Some ''other''\<rparr>
   \<and> normalizeCredentials
      (Some (empty_credentials\<lparr>cred_username := Some ''alice''\<rparr>)) True None
    = \<lparr>q_email = None, q_username = Some ''alice'', q_realm = None\<rparr>"
proof -
  have a: "\<forall>j<length ''acme''. take (length '':'') (drop j ''acme:bob@example.com'') \<noteq> '':''"
    by (simp add: less_Suc_eq)
  have b: "\<forall>j. take (length '':'') (drop j ''bob@example.com'') \<noteq> '':''"
  proof
    fix j :: nat
    have "j < 15 \<or> 15 \<le> j" by arith
    then show "take (length '':'') (drop j ''bob@example.com'') \<noteq> '':''"
      by (auto simp: less_Suc_eq numeral_eq_Suc)
  qed
  show ?thesis
    using a b
      normalizeCredentials_amended
        [of "empty_credentials\<lparr>cred_email := Some ''acme:bob@example.com'', cred_realm := Some ''other''\<rparr>"
            None "'':''" "''acme:bob@example.com''" "''acme''" "''bob@example.com''" "''x''" True]
      normalizeCredentials_amended
        [of "empty_credentials\<lparr>cred_username := Some ''/alice'', cred_realm := Some ''tenantB''\<rparr>"
            None "''/''" "''/alice''" "[]" "''alice''" "''x''" True]
      normalizeCredentials_amended
        [of "empty_credentials\<lparr>cred_email := Some ''bob@example.com'', cred_realm := Some ''other''\<rparr>"
            "Some '':''" "'':''" "'':''" "[]" "[]" "''bob@example.com''" True]
      normalizeCredentials_amended
        [of "empty_credentials\<lparr>cred_username := Some ''alice''\<rparr>"
            None "'':''" "'':''" "[]" "[]" "''alice''" True]
    by (simp add: empty_credentials_def truthy_str_def)
qed

text \<open>
  The claim as first stated fails where the delimiter is the first character: the part
  before it is the empty string, and the source's test \<^verbatim>\<open>if (parts[0])\<close> leaves the
  explicit realm in place instead of overriding it.
\<close>

theorem normalizeCredentials_counterexample:
  "''/alice'' = [] @ ''/'' @ ''alice''
   \<and> indexOf ''/alice'' ''/'' = Some 0
   \<and> normalizeCredentials
        (Some (empty_credentials\<lparr>cred_username := Some ''/alice'', cred_realm := Some ''tenantB''\<rparr>))
        True (Some ''/'')
      = \<lparr>q_email = None, q_username = Some ''alice'', q_realm = Some ''tenantB''\<rparr>
   \<and> q_realm (normalizeCredentials
        (Some (empty_credentials\<lparr>cred_username := Some ''/alice'', cred_realm := Some ''tenantB''\<rparr>))
        True (Some ''/'')) \<noteq> Some (take 0 ''/alice'')"
  by (simp add: normalizeCredentials_def empty_credentials_def empty_query_def
        truthy_str_def splitPrincipal_def)

section \<open>Access tokens\<close>

text \<open>
  Claim C3. After the set-up the default ttl and the maximal ttl are numbers, 1209600 and
  31556926 unless configured otherwise. For every account, requested ttl, options and state
  \<^verbatim>\<open>createAccessToken\<close> hands to the Session Store the minimum of the maximal ttl and
  of the requested ttl, or of the default ttl when the requested one is zero or absent;
  unless the store fails, the token issued carries that ttl. With a maximal ttl of 31556926
  a request for 10000000 yields 10000000 and a request for 40000000 yields 31556926.
\<close>

theorem createAccessToken_ttl_min:
  "(\<exists>d m. d \<noteq> 0 \<and> m \<noteq> 0
      \<and> set_ttl (StormpathUser_setup s0) = Some (Num d)
      \<and> set_maxTTL (StormpathUser_setup s0) = Some (Num m)
      \<and> (if truthy_num (set_ttl s0) then set_ttl s0 = Some (Num d) else d = 1209600)
      \<and> (if truthy_num (set_maxTTL s0) then set_maxTTL s0 = Some (Num m) else m = 31556926))
   \<and> (set_ttl st = Some (Num d) \<and> set_maxTTL st = Some (Num m) \<longrightarrow>
        createAccessToken st user (Number (Num n)) opts w
          = accessTokens_create user (Num (min (if n = 0 then d else n) m)) w
      \<and> createAccessToken st user Undefined opts w
          = accessTokens_create user (Num (min d m)) w
      \<and> createAccessToken st user (Object ob) None w
          = createAccessToken st user (num_val (cred_ttl ob)) (Some ob) w
      \<and> (next_fault w = None \<longrightarrow>
           (\<exists>tok w'. createAccessToken st user (Number (Num n)) opts w = (Inr tok, w')
              \<and> tok_ttl tok = Num (min (if n = 0 then d else n) m)
              \<and> tok_userId tok = acct_id user
              \<and> w_tokens w' = w_tokens w @ [tok])))
   \<and> (set_ttl st = Some (Num d) \<and> set_maxTTL st = Some (Num 31556926) \<longrightarrow>
        createAccessToken st user (Number (Num 10000000)) opts w
          = accessTokens_create user (Num 10000000) w
      \<and> createAccessToken st user (Number (Num 40000000)) opts w
          = accessTokens_create user (Num 31556926) w)"
proof (intro conjI impI)
  show "\<exists>d m. d \<noteq> 0 \<and> m \<noteq> 0
      \<and> set_ttl (StormpathUser_setup s0) = Some (Num d)
      \<and> set_maxTTL (StormpathUser_setup s0) = Some (Num m)
      \<and> (if truthy_num (set_ttl s0) then set_ttl s0 = Some (Num d) else d = 1209600)
      \<and> (if truthy_num (set_maxTTL s0) then set_maxTTL s0 = Some (Num m) else m = 31556926)"
    by (rule setup_numbers)
next
  assume a: "set_ttl st = Some (Num d) \<and> set_maxTTL st = Some (Num m)"
  then show "createAccessToken st user (Number (Num n)) opts w
          = accessTokens_create user (Num (min (if n = 0 then d else n) m)) w"
    by (simp add: createAccessToken_number)
  from a show "createAccessToken st user Undefined opts w
          = accessTokens_create user (Num (min d m)) w"
    by (simp add: createAccessToken_falsy)
  show "createAccessToken st user (Object ob) None w
          = createAccessToken st user (num_val (cred_ttl ob)) (Some ob) w"
    by (rule createAccessToken_object)
  assume f: "next_fault w = None"
  let ?t = "Num (min (if n = 0 then d else n) m)"
  from accessTokens_create_ok[OF f] obtain tok w'
    where c: "accessTokens_create user ?t w = (Inr tok, w')" by blast
  from accessTokens_create_ttl[OF c] c a
  show "\<exists>tok w'. createAccessToken st user (Number (Num n)) opts w = (Inr tok, w')
              \<and> tok_ttl tok = Num (min (if n = 0 then d else n) m)
              \<and> tok_userId tok = acct_id user
              \<and> w_tokens w' = w_tokens w @ [tok]"
    by (simp add: createAccessToken_number)
next
  assume a: "set_ttl st = Some (Num d) \<and> set_maxTTL st = Some (Num 31556926)"
  then show "createAccessToken st user (Number (Num 10000000)) opts w
          = accessTokens_create user (Num 10000000) w"
    by (simp add: createAccessToken_number)
  from a show "createAccessToken st user (Number (Num 40000000)) opts w
          = accessTokens_create user (Num 31556926) w"
    by (simp add: createAccessToken_number)
qed

theorem createAccessToken_ttl_min_witness:
  "createAccessToken (StormpathUser_setup settings0) alice (Number (Num 10000000)) None world0
     = accessTokens_create alice (Num 10000000) world0
   \<and> createAccessToken (StormpathUser_setup settings0) alice (Number (Num 40000000)) None world0
     = accessTokens_create alice (Num 31556926) world0
   \<and> createAccessToken (StormpathUser_setup settings0) alice Undefined None world0
     = accessTokens_create alice (Num 1209600) world0
   \<and> (\<exists>tok w'. createAccessToken (StormpathUser_setup settings0) alice
                   (Number (Num 40000000)) None world0 = (Inr tok, w')
         \<and> tok_ttl tok = Num 31556926)"
proof -
  have st: "set_ttl (StormpathUser_setup settings0) = Some (Num 1209600)
            \<and> set_maxTTL (StormpathUser_setup settings0) = Some (Num 31556926)"
    by (simp add: StormpathUser_setup_def settings0_def DEFAULT_TTL_def DEFAULT_MAX_TTL_def)
  have nf: "next_fault world0 = None"
    by (simp add: next_fault_def world0_def)
  from st nf createAccessToken_ttl_min
     [where ?s0.0 = settings0 and st = "StormpathUser_setup settings0" and d = 1209600
        and m = 31556926 and user = alice and n = 40000000 and opts = None and w = world0
        and ob = empty_credentials]
  show ?thesis by simp metis
qed

section \<open>Login: the unverified email\<close>

text \<open>
  Claim C4. When the lookup finds the account and the password comparison reports a match,
  but email verification is required and the account's email is not verified, login fails
  with the error of code \<^verbatim>\<open>LOGIN_FAILED_EMAIL_NOT_VERIFIED\<close> and status 401, which is not
  the generic error. The Session Store is not called: the stored tokens are unchanged and
  the log gains only the lookup and the comparison.
\<close>

theorem login_email_not_verified:
  assumes "\<not> ((set_realmRequired s \<or> truthy_str (set_realmDelimiter s))
               \<and> \<not> truthy_str (q_realm (login_query s c)))"
    and "truthy_str (q_email (login_query s c)) \<or> truthy_str (q_username (login_query s c))"
    and "findOne (login_query s c) w = (Inr (Some user), w1)"
    and "hasPassword user (cred_password c) w1 = (Inr True, w2)"
    and "set_emailVerificationRequired s"
    and "\<not> acct_emailVerified user"
  shows "login s c inc w = (Inl emailNotVerifiedError, w2)
         \<and> err_code emailNotVerifiedError = Some ''LOGIN_FAILED_EMAIL_NOT_VERIFIED''
         \<and> err_statusCode emailNotVerifiedError = Some 401
         \<and> emailNotVerifiedError \<noteq> defaultError
         \<and> w_tokens w2 = w_tokens w \<and> w_issued w2 = w_issued w
         \<and> (\<exists>p h. w_log w2 = w_log w @ [DirFindOne (login_query s c), BcryptCompare p h])"
proof -
  have l: "login s c inc w = (Inl emailNotVerifiedError, w2)"
    using assms
    by (auto simp: login_def login_realmRequired_def Let_def)
  have e: "err_code emailNotVerifiedError = Some ''LOGIN_FAILED_EMAIL_NOT_VERIFIED''
         \<and> err_statusCode emailNotVerifiedError = Some 401
         \<and> emailNotVerifiedError \<noteq> defaultError"
    by (simp add: emailNotVerifiedError_def defaultError_def Error_def)
  from findOne_cases[OF assms(3)]
  have w1: "w1 = w\<lparr>w_faults := tl (w_faults w), w_log := w_log w @ [DirFindOne (login_query s c)]\<rparr>" .
  from hasPassword_cases[OF assms(4)] obtain p h where
    "w2 = w1\<lparr>w_faults := tl (w_faults w1), w_log := w_log w1 @ [BcryptCompare p h]\<rparr>"
    by auto
  with w1 have "w_tokens w2 = w_tokens w \<and> w_issued w2 = w_issued w
         \<and> w_log w2 = w_log w @ [DirFindOne (login_query s c), BcryptCompare p h]"
    by simp
  with l e show ?thesis by blast
qed

theorem login_email_not_verified_witness:
  "login (settings0\<lparr>set_emailVerificationRequired := True\<rparr>)
      (empty_credentials\<lparr>cred_username := Some ''alice'', cred_password := Some ''secret''\<rparr>)
      IncUndefined world0
    = (Inl emailNotVerifiedError,
       world0\<lparr>w_log := [DirFindOne \<lparr>q_email = None, q_username = Some ''alice'', q_realm = None\<rparr>,
                         BcryptCompare ''secret'' ''hash:secret'']\<rparr>)"
proof -
  let ?s = "settings0\<lparr>set_emailVerificationRequired := True\<rparr>"
  let ?c = "empty_credentials\<lparr>cred_username := Some ''alice'', cred_password := Some ''secret''\<rparr>"
  let ?w1 = "snd (findOne (login_query ?s ?c) world0)"
  show ?thesis
    using login_email_not_verified [of ?s ?c world0 alice ?w1
        "snd (hasPassword alice (cred_password ?c) ?w1)" IncUndefined]
    by (simp add: login_query_def login_realmRequired_def normalizeCredentials_def
        empty_query_def empty_credentials_def truthy_str_def settings0_def world0_def alice_def
        findOne_def external_call_def next_fault_def matches_def hasPassword_def
        bcrypt_compare_def)
qed

section \<open>Login: the checks before the lookup\<close>

text \<open>
  Claim C5. When a realm is required (the setting \<^verbatim>\<open>realmRequired\<close> is true or a realm
  delimiter is set) and the normalised query has no realm, login fails with the error of
  code \<^verbatim>\<open>REALM_REQUIRED\<close> and status 400. The state of the collaborators is returned
  unchanged, so neither the directory nor the comparison was called, whatever the password.
\<close>

theorem login_realm_required:
  assumes "set_realmRequired s \<or> truthy_str (set_realmDelimiter s)"
    and "\<not> truthy_str (q_realm (login_query s c))"
  shows "login s c inc w = (Inl err1, w)
         \<and> err_code err1 = Some ''REALM_REQUIRED'' \<and> err_statusCode err1 = Some 400"
  using assms by (simp add: login_def login_realmRequired_def err1_def Error_def)

theorem login_realm_required_witness:
  "login (settings0\<lparr>set_realmDelimiter := Some ''/''\<rparr>)
      (empty_credentials\<lparr>cred_username := Some ''alice'', cred_password := Some ''secret''\<rparr>)
      IncUndefined world0
    = (Inl err1, world0)"
  using login_realm_required
     [of "settings0\<lparr>set_realmDelimiter := Some ''/''\<rparr>"
         "empty_credentials\<lparr>cred_username := Some ''alice'', cred_password := Some ''secret''\<rparr>"
         IncUndefined world0]
  by (simp add: settings0_def empty_credentials_def truthy_str_def login_query_def
      login_realmRequired_def normalizeCredentials_def splitPrincipal_def empty_query_def)

text \<open>
  Claim C6, as amended. When the realm check passes (no realm is required, or the
  normalised query has one) and the normalised query has neither a non-empty email nor a
  non-empty username, login fails with the error of code \<^verbatim>\<open>USERNAME_EMAIL_REQUIRED\<close> and
  status 400, and the state of the collaborators is returned unchanged.
\<close>

theorem login_username_email_required:
  assumes "\<not> ((set_realmRequired s \<or> truthy_str (set_realmDelimiter s))
               \<and> \<not> truthy_str (q_realm (login_query s c)))"
    and "\<not> truthy_str (q_email (login_query s c))"
    and "\<not> truthy_str (q_username (login_query s c))"
  shows "login s c inc w = (Inl err2, w)
         \<and> err_code err2 = Some ''USERNAME_EMAIL_REQUIRED'' \<and> err_statusCode err2 = Some 400"
  using assms by (auto simp add: login_def login_realmRequired_def err2_def Error_def Let_def)

theorem login_username_email_required_witness:
  "login settings0 (empty_credentials\<lparr>cred_password := Some ''secret''\<rparr>)
      IncUndefined world0
    = (Inl err2, world0)"
  using login_username_email_required
     [of settings0 "empty_credentials\<lparr>cred_password := Some ''secret''\<rparr>"
         IncUndefined world0]
  by (simp add: settings0_def empty_credentials_def truthy_str_def login_query_def
      login_realmRequired_def normalizeCredentials_def splitPrincipal_def empty_query_def)

text \<open>
  The claim as first stated fails when a realm is required and missing: the realm check
  comes first, and the empty credentials are rejected with \<^verbatim>\<open>REALM_REQUIRED\<close>.
\<close>

theorem login_username_email_required_counterexample:
  "q_email (login_query (settings0\<lparr>set_realmRequired := True\<rparr>) empty_credentials) = None
   \<and> q_username (login_query (settings0\<lparr>set_realmRequired := True\<rparr>) empty_credentials) = None
   \<and> login (settings0\<lparr>set_realmRequired := True\<rparr>) empty_credentials IncUndefined world0
       = (Inl err1, world0)
   \<and> err_code err1 = Some ''REALM_REQUIRED''
   \<and> err_code err1 \<noteq> Some ''USERNAME_EMAIL_REQUIRED''"
  by (simp add: login_def settings0_def empty_credentials_def truthy_str_def login_query_def
      login_realmRequired_def normalizeCredentials_def splitPrincipal_def empty_query_def
      err1_def Error_def)

section \<open>Confirm\<close>

text \<open>
  Claim C7. \<^verbatim>\<open>confirm(uid, token)\<close>: when no account has the id, the call fails with
  code \<^verbatim>\<open>USER_NOT_FOUND\<close> and status 404. When the account exists and its verification
  token differs from the given one, the call fails with code \<^verbatim>\<open>INVALID_TOKEN\<close> and
  status 400 and the stored accounts are unchanged. When the token matches, the account with
  the verification token cleared and \<^verbatim>\<open>emailVerified\<close> set is saved; once the save has
  succeeded the directory holds that account, and a second confirm with the same token,
  whose lookup succeeds, fails with \<^verbatim>\<open>INVALID_TOKEN\<close>. A lookup error is handed on as
  it is.
\<close>

theorem confirm_spec:
  "(findById uid w = (Inl e, w1) \<longrightarrow> confirm uid token redirect w = (Inl e, w1))
   \<and> (findById uid w = (Inr None, w1) \<longrightarrow>
         confirm uid token redirect w
           = (Inl \<lparr>err_message = ''StormpathUser not found: '' @ uid,
                   err_statusCode = Some 404, err_code = Some ''USER_NOT_FOUND''\<rparr>, w1))
   \<and> (findById uid w = (Inr (Some user), w1) \<and> acct_verificationToken user \<noteq> Some token \<longrightarrow>
         confirm uid token redirect w
           = (Inl \<lparr>err_message = ''Invalid token: '' @ token,
                   err_statusCode = Some 400, err_code = Some ''INVALID_TOKEN''\<rparr>, w1)
       \<and> w_accounts w1 = w_accounts w)
   \<and> (findById uid w = (Inr (Some user), w1) \<and> acct_verificationToken user = Some token \<longrightarrow>
         confirm uid token redirect w
           = save (user\<lparr>acct_verificationToken := None, acct_emailVerified := True\<rparr>) w1
       \<and> (save (user\<lparr>acct_verificationToken := None, acct_emailVerified := True\<rparr>) w1
             = (Inr (), w2) \<longrightarrow>
             confirm uid token redirect w = (Inr (), w2)
           \<and> find (\<lambda>a. acct_id a = uid) (w_accounts w2)
               = Some (user\<lparr>acct_verificationToken := None, acct_emailVerified := True\<rparr>)
           \<and> (next_fault w2 = None \<longrightarrow>
                 fst (confirm uid token redirect' w2)
                   = Inl \<lparr>err_message = ''Invalid token: '' @ token,
                          err_statusCode = Some 400, err_code = Some ''INVALID_TOKEN''\<rparr>)))"
proof (intro conjI impI)
  assume "findById uid w = (Inl e, w1)"
  then show "confirm uid token redirect w = (Inl e, w1)" by (simp add: confirm_def)
next
  assume "findById uid w = (Inr None, w1)"
  then show "confirm uid token redirect w
           = (Inl \<lparr>err_message = ''StormpathUser not found: '' @ uid,
                   err_statusCode = Some 404, err_code = Some ''USER_NOT_FOUND''\<rparr>, w1)"
    by (simp add: confirm_def Error_def)
next
  assume a: "findById uid w = (Inr (Some user), w1) \<and> acct_verificationToken user \<noteq> Some token"
  then show "confirm uid token redirect w
           = (Inl \<lparr>err_message = ''Invalid token: '' @ token,
                   err_statusCode = Some 400, err_code = Some ''INVALID_TOKEN''\<rparr>, w1)"
    by (simp add: confirm_def Error_def)
  from a findById_cases[of uid w "Inr (Some user)" w1]
  show "w_accounts w1 = w_accounts w" by simp
next
  assume a: "findById uid w = (Inr (Some user), w1) \<and> acct_verificationToken user = Some token"
  then show "confirm uid token redirect w
           = save (user\<lparr>acct_verificationToken := None, acct_emailVerified := True\<rparr>) w1"
    by (simp add: confirm_def)
next
  let ?u = "user\<lparr>acct_verificationToken := None, acct_emailVerified := True\<rparr>"
  assume a: "findById uid w = (Inr (Some user), w1) \<and> acct_verificationToken user = Some token"
  assume s: "save ?u w1 = (Inr (), w2)"
  from a s show "confirm uid token redirect w = (Inr (), w2)" by (simp add: confirm_def)
  from a findById_cases[of uid w "Inr (Some user)" w1]
  have f: "find (\<lambda>a. acct_id a = uid) (w_accounts w1) = Some user" by simp
  then have i: "acct_id user = uid" by (rule find_acct_id)
  from save_ok[OF s] i find_after_save[OF f, of ?u]
  show p: "find (\<lambda>a. acct_id a = uid) (w_accounts w2) = Some ?u" by simp
  assume "next_fault w2 = None"
  with p show "fst (confirm uid token redirect' w2)
                   = Inl \<lparr>err_message = ''Invalid token: '' @ token,
                          err_statusCode = Some 400, err_code = Some ''INVALID_TOKEN''\<rparr>"
    by (simp add: confirm_def findById_def external_call_def Error_def)
qed

theorem confirm_spec_witness:
  "fst (confirm ''2'' ''tok123'' None world0)
     = Inl \<lparr>err_message = ''StormpathUser not found: 2'',
            err_statusCode = Some 404, err_code = Some ''USER_NOT_FOUND''\<rparr>
   \<and> confirm ''1'' ''wrong'' None world0
     = (Inl \<lparr>err_message = ''Invalid token: wrong'',
             err_statusCode = Some 400, err_code = Some ''INVALID_TOKEN''\<rparr>,
        world0\<lparr>w_log := [DirFindById ''1'']\<rparr>)
   \<and> fst (confirm ''1'' ''tok123'' None (world0\<lparr>w_faults := [Some (Error ''directory down'')]\<rparr>))
     = Inl (Error ''directory down'')
   \<and> fst (confirm ''1'' ''tok123'' None world0) = Inr ()
   \<and> w_accounts (snd (confirm ''1'' ''tok123'' None world0))
     = [alice\<lparr>acct_verificationToken := None, acct_emailVerified := True\<rparr>]
   \<and> fst (confirm ''1'' ''tok123'' None (snd (confirm ''1'' ''tok123'' None world0)))
     = Inl \<lparr>err_message = ''Invalid token: tok123'',
            err_statusCode = Some 400, err_code = Some ''INVALID_TOKEN''\<rparr>"
proof -
  let ?wf = "world0\<lparr>w_faults := [Some (Error ''directory down'')]\<rparr>"
  let ?u = "alice\<lparr>acct_verificationToken := None, acct_emailVerified := True\<rparr>"
  have 1: "fst (confirm ''2'' ''tok123'' None world0)
     = Inl \<lparr>err_message = ''StormpathUser not found: 2'',
            err_statusCode = Some 404, err_code = Some ''USER_NOT_FOUND''\<rparr>"
    using confirm_spec [where uid = "''2''" and token = "''tok123''" and redirect = None
        and w = world0 and ?w1.0 = "snd (findById ''2'' world0)"]
    by (simp add: findById_def external_call_def next_fault_def world0_def alice_def)
  have 2: "confirm ''1'' ''wrong'' None world0
     = (Inl \<lparr>err_message = ''Invalid token: wrong'',
             err_statusCode = Some 400, err_code = Some ''INVALID_TOKEN''\<rparr>,
        world0\<lparr>w_log := [DirFindById ''1'']\<rparr>)"
    using confirm_spec [where uid = "''1''" and token = "''wrong''" and redirect = None
        and w = world0 and user = alice and ?w1.0 = "snd (findById ''1'' world0)"]
    by (simp add: findById_def external_call_def next_fault_def world0_def alice_def)
  have 3: "fst (confirm ''1'' ''tok123'' None ?wf) = Inl (Error ''directory down'')"
    using confirm_spec [where uid = "''1''" and token = "''tok123''" and redirect = None
        and w = ?wf and e = "Error ''directory down''" and ?w1.0 = "snd (findById ''1'' ?wf)"]
    by (simp add: findById_def external_call_def next_fault_def world0_def alice_def)
  have 4: "fst (confirm ''1'' ''tok123'' None world0) = Inr ()
   \<and> w_accounts (snd (confirm ''1'' ''tok123'' None world0)) = [?u]
   \<and> fst (confirm ''1'' ''tok123'' None (snd (confirm ''1'' ''tok123'' None world0)))
     = Inl \<lparr>err_message = ''Invalid token: tok123'',
            err_statusCode = Some 400, err_code = Some ''INVALID_TOKEN''\<rparr>"
    using confirm_spec [where uid = "''1''" and token = "''tok123''" and redirect = None
        and redirect' = None
        and w = world0 and user = alice and ?w1.0 = "snd (findById ''1'' world0)"
        and ?w2.0 = "snd (save ?u (snd (findById ''1'' world0)))"]
    by (simp add: findById_def save_def external_call_def next_fault_def world0_def alice_def)
  from 1 2 3 4 show ?thesis by blast
qed

section \<open>Logout\<close>

text \<open>
  Claim C8. \<^verbatim>\<open>logout(tokenId)\<close>: an error of the token lookup is handed on as it is.
  When no token has the id, the call fails with the error
  \<^verbatim>\<open>could not find accessToken\<close>. When the token exists it is destroyed; an error of the
  destroy is handed on, and otherwise logout succeeds without a value, no token with that id
  is left, and a following logout with the same id, whose lookup succeeds, fails with
  \<^verbatim>\<open>could not find accessToken\<close>.
\<close>

theorem logout_spec:
  "(accessToken_findById tokenId w = (Inl e, w1) \<longrightarrow> logout tokenId w = (Inl e, w1))
   \<and> (accessToken_findById tokenId w = (Inr None, w1) \<longrightarrow>
         logout tokenId w = (Inl (Error ''could not find accessToken''), w1))
   \<and> (accessToken_findById tokenId w = (Inr (Some t), w1) \<longrightarrow>
         logout tokenId w = accessToken_destroy t w1
       \<and> (accessToken_destroy t w1 = (Inl e', w2) \<longrightarrow> logout tokenId w = (Inl e', w2))
       \<and> (accessToken_destroy t w1 = (Inr (), w2) \<longrightarrow>
             logout tokenId w = (Inr (), w2)
           \<and> find (\<lambda>x. tok_id x = tokenId) (w_tokens w2) = None
           \<and> (next_fault w2 = None \<longrightarrow>
                 fst (logout tokenId w2) = Inl (Error ''could not find accessToken''))))"
proof (intro conjI impI)
  assume "accessToken_findById tokenId w = (Inl e, w1)"
  then show "logout tokenId w = (Inl e, w1)" by (simp add: logout_def)
next
  assume "accessToken_findById tokenId w = (Inr None, w1)"
  then show "logout tokenId w = (Inl (Error ''could not find accessToken''), w1)"
    by (simp add: logout_def)
next
  assume f: "accessToken_findById tokenId w = (Inr (Some t), w1)"
  then show l: "logout tokenId w = accessToken_destroy t w1" by (simp add: logout_def)
  assume "accessToken_destroy t w1 = (Inl e', w2)"
  with l show "logout tokenId w = (Inl e', w2)" by simp
next
  assume f: "accessToken_findById tokenId w = (Inr (Some t), w1)"
  then have l: "logout tokenId w = accessToken_destroy t w1" by (simp add: logout_def)
  assume d: "accessToken_destroy t w1 = (Inr (), w2)"
  with l show "logout tokenId w = (Inr (), w2)" by simp
  from accessToken_findById_cases[OF f]
  have "find (\<lambda>t. tok_id t = tokenId) (w_tokens w) = Some t" by simp
  then have "tok_id t = tokenId" by (rule find_Some_id)
  with accessToken_destroy_ok[OF d]
  show n: "find (\<lambda>x. tok_id x = tokenId) (w_tokens w2) = None"
    by (simp add: find_filter_removed)
  assume "next_fault w2 = None"
  from logout_not_found[OF this n]
  show "fst (logout tokenId w2) = Inl (Error ''could not find accessToken'')" .
qed

theorem logout_spec_witness:
  "fst (logout ''abc'' (world1\<lparr>w_faults := [Some (Error ''store down'')]\<rparr>))
     = Inl (Error ''store down'')
   \<and> fst (logout ''zzz'' world1) = Inl (Error ''could not find accessToken'')
   \<and> fst (logout ''abc'' (world1\<lparr>w_faults := [None, Some (Error ''destroy failed'')]\<rparr>))
     = Inl (Error ''destroy failed'')
   \<and> fst (logout ''abc'' world1) = Inr ()
   \<and> w_tokens (snd (logout ''abc'' world1)) = []
   \<and> fst (logout ''abc'' (snd (logout ''abc'' world1)))
     = Inl (Error ''could not find accessToken'')"
proof -
  let ?wa = "world1\<lparr>w_faults := [Some (Error ''store down'')]\<rparr>"
  let ?wc = "world1\<lparr>w_faults := [None, Some (Error ''destroy failed'')]\<rparr>"
  have 1: "fst (logout ''abc'' ?wa) = Inl (Error ''store down'')"
    using logout_spec [where tokenId = "''abc''" and w = ?wa and e = "Error ''store down''"
        and ?w1.0 = "snd (accessToken_findById ''abc'' ?wa)"]
    by (simp add: accessToken_findById_def external_call_def next_fault_def world1_def)
  have 2: "fst (logout ''zzz'' world1) = Inl (Error ''could not find accessToken'')"
    using logout_spec [where tokenId = "''zzz''" and w = world1
        and ?w1.0 = "snd (accessToken_findById ''zzz'' world1)"]
    by (simp add: accessToken_findById_def external_call_def next_fault_def world1_def
        world0_def token0_def)
  have 3: "fst (logout ''abc'' ?wc) = Inl (Error ''destroy failed'')"
    using logout_spec [where tokenId = "''abc''" and w = ?wc and t = token0
        and e' = "Error ''destroy failed''"
        and ?w1.0 = "snd (accessToken_findById ''abc'' ?wc)"
        and ?w2.0 = "snd (accessToken_destroy token0 (snd (accessToken_findById ''abc'' ?wc)))"]
    by (simp add: accessToken_findById_def accessToken_destroy_def external_call_def
        next_fault_def world1_def world0_def token0_def)
  have 4: "fst (logout ''abc'' world1) = Inr ()
   \<and> w_tokens (snd (logout ''abc'' world1)) = []
   \<and> fst (logout ''abc'' (snd (logout ''abc'' world1)))
     = Inl (Error ''could not find accessToken'')"
    using logout_spec [where tokenId = "''abc''" and w = world1 and t = token0
        and ?w1.0 = "snd (accessToken_findById ''abc'' world1)"
        and ?w2.0 = "snd (accessToken_destroy token0 (snd (accessToken_findById ''abc'' world1)))"]
    by (simp add: accessToken_findById_def accessToken_destroy_def external_call_def
        next_fault_def world1_def world0_def token0_def)
  from 1 2 3 4 show ?thesis by blast
qed

section \<open>Empty passwords\<close>

text \<open>
  Claim C9, as amended. When the stored hash or the given plain text is absent or empty,
  \<^verbatim>\<open>hasPassword\<close> answers false, without an error and without calling the comparison:
  the state is returned unchanged. Hence a login with an absent or empty password never
  returns a token, whatever the directory holds: it fails with \<^verbatim>\<open>REALM_REQUIRED\<close> or
  \<^verbatim>\<open>USERNAME_EMAIL_REQUIRED\<close> when one of the two checks before the lookup rejects it,
  and with the generic \<open>defaultError\<close> whenever it reaches the lookup. The stored tokens
  are unchanged and at most the lookup is logged.
\<close>

theorem login_empty_password:
  "(\<not> truthy_str (acct_password a) \<or> \<not> truthy_str plain \<longrightarrow>
      hasPassword a plain w = (Inr False, w))
   \<and> (\<not> truthy_str (cred_password c) \<longrightarrow>
        (fst (login s c inc w) = Inl err1 \<or> fst (login s c inc w) = Inl err2
         \<or> fst (login s c inc w) = Inl defaultError)
      \<and> w_tokens (snd (login s c inc w)) = w_tokens w
      \<and> (w_log (snd (login s c inc w)) = w_log w
          \<or> w_log (snd (login s c inc w)) = w_log w @ [DirFindOne (login_query s c)])
      \<and> (\<not> ((set_realmRequired s \<or> truthy_str (set_realmDelimiter s))
               \<and> \<not> truthy_str (q_realm (login_query s c)))
          \<and> (truthy_str (q_email (login_query s c)) \<or> truthy_str (q_username (login_query s c)))
          \<longrightarrow> fst (login s c inc w) = Inl defaultError))"
proof (intro conjI impI)
  assume "\<not> truthy_str (acct_password a) \<or> \<not> truthy_str plain"
  then show "hasPassword a plain w = (Inr False, w)" by (rule hasPassword_falsy)
next
  assume p: "\<not> truthy_str (cred_password c)"
  from login_falsy_password[OF p, of s inc w]
  show "fst (login s c inc w) = Inl err1 \<or> fst (login s c inc w) = Inl err2
         \<or> fst (login s c inc w) = Inl defaultError" by auto
next
  assume p: "\<not> truthy_str (cred_password c)"
  from login_falsy_password[OF p, of s inc w]
  show "w_tokens (snd (login s c inc w)) = w_tokens w" by auto
next
  assume p: "\<not> truthy_str (cred_password c)"
  from login_falsy_password[OF p, of s inc w]
  show "w_log (snd (login s c inc w)) = w_log w
          \<or> w_log (snd (login s c inc w)) = w_log w @ [DirFindOne (login_query s c)]" by auto
next
  assume p: "\<not> truthy_str (cred_password c)"
  assume r: "\<not> ((set_realmRequired s \<or> truthy_str (set_realmDelimiter s))
               \<and> \<not> truthy_str (q_realm (login_query s c)))
          \<and> (truthy_str (q_email (login_query s c)) \<or> truthy_str (q_username (login_query s c)))"
  from r login_falsy_password_lookup[OF p, of s inc w]
  show "fst (login s c inc w) = Inl defaultError"
    by (simp add: login_realmRequired_def)
qed

theorem login_empty_password_witness:
  "hasPassword alice (Some []) world0 = (Inr False, world0)
   \<and> fst (login settings0
            (empty_credentials\<lparr>cred_username := Some ''alice'', cred_password := Some []\<rparr>)
            IncUndefined world0)
       = Inl defaultError
   \<and> w_tokens (snd (login settings0
            (empty_credentials\<lparr>cred_username := Some ''alice'', cred_password := Some []\<rparr>)
            IncUndefined world0)) = w_tokens world0"
  using login_empty_password
     [where a = alice and plain = "Some []" and w = world0 and s = settings0 and inc = IncUndefined
        and c = "empty_credentials\<lparr>cred_username := Some ''alice'', cred_password := Some []\<rparr>"]
  by (simp add: truthy_str_def empty_credentials_def settings0_def login_query_def
      login_realmRequired_def normalizeCredentials_def empty_query_def)

text \<open>
  The claim as first stated fails for a login that is rejected before the lookup: with
  an empty password and neither email nor username the error is
  \<^verbatim>\<open>USERNAME_EMAIL_REQUIRED\<close>, and with a required realm that is missing it is
  \<^verbatim>\<open>REALM_REQUIRED\<close>, not \<^verbatim>\<open>LOGIN_FAILED\<close>.
\<close>

theorem login_empty_password_counterexample:
  "\<not> truthy_str (cred_password (empty_credentials\<lparr>cred_password := Some []\<rparr>))
   \<and> login settings0 (empty_credentials\<lparr>cred_password := Some []\<rparr>) IncUndefined world0
       = (Inl err2, world0)
   \<and> err_code err2 = Some ''USERNAME_EMAIL_REQUIRED''
   \<and> \<not> truthy_str (cred_password (empty_credentials\<lparr>cred_username := Some ''alice''\<rparr>))
   \<and> login (settings0\<lparr>set_realmRequired := True\<rparr>)
         (empty_credentials\<lparr>cred_username := Some ''alice''\<rparr>) IncUndefined world0
       = (Inl err1, world0)
   \<and> err_code err1 = Some ''REALM_REQUIRED''
   \<and> err_code defaultError = Some ''LOGIN_FAILED''"
  by (simp add: login_def settings0_def empty_credentials_def truthy_str_def login_query_def
      login_realmRequired_def normalizeCredentials_def splitPrincipal_def empty_query_def
      err1_def err2_def defaultError_def Error_def)

section \<open>A requested ttl of zero\<close>




end
